theory Spec2Isabelle
  imports Main "HOL-Library.Word"
begin

section \<open>The Vertex AI image captioner adapter\<close>

text \<open>
  A shallow embedding of \<^verbatim>\<open>captioner.py\<close> (class \<^verbatim>\<open>VertexAIImageCaptioner\<close>).
  The cloud SDK is outside the repository, so its three entry points are parameters of the
  model (record \<open>sdk\<close>). Every call into the SDK is written to a trace of effects, which
  is threaded through each operation; the SDK's answers may depend on that trace, so a
  client that keeps state of its own (a quota, a cache) is covered.
\<close>

subsection \<open>Values\<close>

text \<open>Python values as far as keyword options and serialized data need them.\<close>

datatype pyval =
    PNone
  | PBool bool
  | PInt int
  | PStr string
  | PList "pyval list"
  | PDict "(string \<times> pyval) list"

text \<open>
  A \<^verbatim>\<open>Dict[str, Any]\<close> in insertion order: keyword arguments, \<^verbatim>\<open>**kwargs\<close>, and the
  serialized form of a component.
\<close>

type_synonym pydict = "(string \<times> pyval) list"

type_synonym byte = "8 word"

text \<open>\<^verbatim>\<open>haystack.dataclasses.byte_stream.ByteStream\<close>: the payload and its attributes.\<close>

record byte_stream =
  data :: "byte list"
  meta :: pydict
  mime_type :: "string option"

text \<open>\<^verbatim>\<open>vertexai.vision_models.Image\<close>, built from the payload bytes.\<close>

datatype vision_image = Image "byte list"

text \<open>The client handle that \<^verbatim>\<open>ImageTextModel.from_pretrained\<close> returns.\<close>

datatype handle = Handle nat

text \<open>An exception raised inside the SDK; the adapter never inspects it.\<close>

datatype sdk_exception = SdkException string

subsection \<open>Errors\<close>

text \<open>
  The adapter has no \<^verbatim>\<open>try\<close>: an exception of the SDK leaves the method that called
  it with its payload untouched. The constructor records which call raised it, following
  the taxonomy of the specification: \<open>AuthenticationError\<close> for \<^verbatim>\<open>vertexai.init\<close>,
  \<open>ModelLoadError\<close> for \<^verbatim>\<open>from_pretrained\<close>, \<open>GenerationError\<close> for \<^verbatim>\<open>get_captions\<close>.
  \<open>TypeError k\<close> is Python's own error for a call that binds the name \<open>k\<close> twice, or
  that unpacks \<open>k\<close> with \<^verbatim>\<open>**\<close> although it is not a mapping.
\<close>

datatype error =
    TypeError string
  | DeserializationError
  | AuthenticationError sdk_exception
  | ModelLoadError sdk_exception
  | GenerationError sdk_exception

subsection \<open>Effects and the SDK\<close>

text \<open>
  What the outside world can observe of the adapter. No operation of the source uses the
  module's \<^verbatim>\<open>logger\<close>, so no definition below emits \<open>LogRecord\<close>.
\<close>

datatype effect =
    Init pyval pyval
  | FromPretrained pyval
  | GetCaptions handle vision_image pydict
  | LogRecord string

record sdk =
  vertexai_init :: "effect list \<Rightarrow> pyval \<Rightarrow> pyval \<Rightarrow> sdk_exception option"
  from_pretrained :: "effect list \<Rightarrow> pyval \<Rightarrow> sdk_exception + handle"
  get_captions :: "effect list \<Rightarrow> handle \<Rightarrow> vision_image \<Rightarrow> pydict \<Rightarrow> sdk_exception + string list"

subsection \<open>The component\<close>

text \<open>
  The attributes \<^verbatim>\<open>_model_name\<close>, \<^verbatim>\<open>_project_id\<close>, \<^verbatim>\<open>_location\<close>, \<^verbatim>\<open>_kwargs\<close> and
  \<^verbatim>\<open>_model\<close>. The annotations \<^verbatim>\<open>str\<close> and \<^verbatim>\<open>Optional[str]\<close> are not enforced by
  Python, so the first three hold any value.
\<close>

record component =
  model_name :: pyval
  project_id :: pyval
  location :: pyval
  kwargs :: pydict
  model :: handle

text \<open>
  A call \<^verbatim>\<open>f(a=.., b=.., **d)\<close> raises \<^verbatim>\<open>TypeError\<close> before \<open>f\<close> runs when a key of
  \<open>d\<close> repeats one of the names already bound. The result is the first such key.
\<close>

definition duplicate_keyword :: "string list \<Rightarrow> pydict \<Rightarrow> string option" where
  "duplicate_keyword names starred = List.find (\<lambda>k. k \<in> set names) (map fst starred)"

text \<open>The body of \<^verbatim>\<open>__init__\<close>, once its parameters are bound.\<close>

definition init ::
  "sdk \<Rightarrow> effect list \<Rightarrow> pyval \<Rightarrow> pyval \<Rightarrow> pyval \<Rightarrow> pydict \<Rightarrow> (error + component) \<times> effect list"
where
  "init s w model' project_id' location' kwargs' =
     (let w1 = w @ [Init project_id' location'] in
      case vertexai_init s w project_id' location' of
        Some e \<Rightarrow> (Inl (AuthenticationError e), w1)
      | None \<Rightarrow>
          (let w2 = w1 @ [FromPretrained model'] in
           case from_pretrained s w1 model' of
             Inl e \<Rightarrow> (Inl (ModelLoadError e), w2)
           | Inr h \<Rightarrow>
               (Inr \<lparr>model_name = model', project_id = project_id', location = location',
                     kwargs = kwargs', model = h\<rparr>, w2)))"

text \<open>
  The names that \<^verbatim>\<open>__init__(self, *, model=.., project_id=.., location=.., **kwargs)\<close>
  binds itself.
\<close>

definition init_parameters :: "string list" where
  "init_parameters = [''model'', ''project_id'', ''location'']"

text \<open>
  The call \<^verbatim>\<open>VertexAIImageCaptioner(**kw)\<close>: the three keyword-only parameters take
  their value from \<open>kw\<close> or their default, every other key is collected in \<^verbatim>\<open>**kwargs\<close>,
  and a key \<^verbatim>\<open>self\<close> collides with the instance.
\<close>

definition new :: "sdk \<Rightarrow> effect list \<Rightarrow> pydict \<Rightarrow> (error + component) \<times> effect list" where
  "new s w kw =
     (case duplicate_keyword [''self''] kw of
        Some k \<Rightarrow> (Inl (TypeError k), w)
      | None \<Rightarrow>
          init s w
            (case map_of kw ''model'' of None \<Rightarrow> PStr ''imagetext'' | Some v \<Rightarrow> v)
            (case map_of kw ''project_id'' of None \<Rightarrow> PNone | Some v \<Rightarrow> v)
            (case map_of kw ''location'' of None \<Rightarrow> PNone | Some v \<Rightarrow> v)
            (filter (\<lambda>(k, v). k \<notin> set init_parameters) kw))"

text \<open>The qualified class name that identifies the component in serialized data.\<close>

definition type_name :: string where
  "type_name =
     ''haystack_integrations.components.generators.google_vertex.captioner.VertexAIImageCaptioner''"

text \<open>
  Modelled from the spec: \<^verbatim>\<open>default_to_dict\<close> belongs to the host framework
  (\<^verbatim>\<open>haystack.core.serialization\<close>) and is not under src/. The specification asks for
  "a serialized representation containing the component's type identifier and its
  configuration fields": the type identifier under \<^verbatim>\<open>type\<close>, the keyword arguments it
  was given under \<^verbatim>\<open>init_parameters\<close>. Its signature is
  \<^verbatim>\<open>default_to_dict(obj, **init_parameters)\<close>: the component arrives as the positional
  argument \<^verbatim>\<open>obj\<close> (here its class name, which is all that is read of it), so a keyword
  \<^verbatim>\<open>obj\<close> binds that parameter a second time and the call raises \<^verbatim>\<open>TypeError\<close>.
\<close>

definition default_to_dict :: "string \<Rightarrow> pydict \<Rightarrow> error + pydict" where
  "default_to_dict cls params =
     (case duplicate_keyword [''obj''] params of
        Some k \<Rightarrow> Inl (TypeError k)
      | None \<Rightarrow> Inr [(''type'', PStr cls), (''init_parameters'', PDict params)])"

text \<open>
  \<^verbatim>\<open>to_dict\<close>: the call \<^verbatim>\<open>default_to_dict(self, model=.., project_id=.., location=..,
  **self._kwargs)\<close>. Python rejects it at the call site when \<^verbatim>\<open>_kwargs\<close> repeats one of
  the three names, and on entry to \<^verbatim>\<open>default_to_dict\<close> when \<^verbatim>\<open>_kwargs\<close> has a key
  \<^verbatim>\<open>obj\<close>, which \<^verbatim>\<open>self\<close> already binds.
\<close>

definition to_dict :: "component \<Rightarrow> error + pydict" where
  "to_dict self =
     (case duplicate_keyword init_parameters (kwargs self) of
        Some k \<Rightarrow> Inl (TypeError k)
      | None \<Rightarrow>
          default_to_dict type_name
            ([(''model'', model_name self), (''project_id'', project_id self),
              (''location'', location self)] @ kwargs self))"

text \<open>
  Modelled from the spec: \<^verbatim>\<open>default_from_dict\<close> belongs to the host framework
  (\<^verbatim>\<open>haystack.core.serialization\<close>) and is not under src/. The specification says that it
  "reconstructs a component instance by re-running construction" and "fails with a
  DeserializationError if required fields are missing or malformed". The required field
  is the type identifier: every parameter of \<^verbatim>\<open>__init__\<close> has a default, so a missing
  \<^verbatim>\<open>init_parameters\<close> stands for no arguments. Re-running construction is the call
  \<^verbatim>\<open>cls(**init_parameters)\<close>, which Python rejects when the entry is not a mapping.
\<close>

definition default_from_dict ::
  "string \<Rightarrow> (effect list \<Rightarrow> pydict \<Rightarrow> (error + 'c) \<times> effect list) \<Rightarrow> effect list \<Rightarrow> pydict
     \<Rightarrow> (error + 'c) \<times> effect list"
where
  "default_from_dict cls ctor w d =
     (case map_of d ''type'' of
        None \<Rightarrow> (Inl DeserializationError, w)
      | Some t \<Rightarrow>
          if t \<noteq> PStr cls then (Inl DeserializationError, w)
          else
            (case map_of d ''init_parameters'' of
               None \<Rightarrow> ctor w []
             | Some (PDict params) \<Rightarrow> ctor w params
             | Some _ \<Rightarrow> (Inl (TypeError ''init_parameters''), w)))"

text \<open>\<^verbatim>\<open>from_dict\<close>: \<^verbatim>\<open>default_from_dict(cls, data)\<close> with this class.\<close>

definition from_dict :: "sdk \<Rightarrow> effect list \<Rightarrow> pydict \<Rightarrow> (error + component) \<times> effect list" where
  "from_dict s w d = default_from_dict type_name (new s) w d"

text \<open>
  \<^verbatim>\<open>run\<close>: the call \<^verbatim>\<open>self._model.get_captions(image=Image(image.data), **self._kwargs)\<close>
  and the dictionary built from its result. Python rejects the call, before the client is
  entered, when \<^verbatim>\<open>_kwargs\<close> has a key \<^verbatim>\<open>image\<close>. The component is returned next to the
  result, so that what \<^verbatim>\<open>run\<close> does to \<^verbatim>\<open>self\<close> is part of the model.
\<close>

definition run ::
  "sdk \<Rightarrow> effect list \<Rightarrow> component \<Rightarrow> byte_stream
     \<Rightarrow> (error + (string \<times> string list) list) \<times> component \<times> effect list"
where
  "run s w self image' =
     (case duplicate_keyword [''image''] (kwargs self) of
        Some k \<Rightarrow> (Inl (TypeError k), self, w)
      | None \<Rightarrow>
          (let img = Image (data image');
               w' = w @ [GetCaptions (model self) img (kwargs self)] in
           case get_captions s w (model self) img (kwargs self) of
             Inl e \<Rightarrow> (Inl (GenerationError e), self, w')
           | Inr captions \<Rightarrow> (Inr [(''captions'', captions)], self, w')))"

subsection \<open>Reachable components and repeated deserialization\<close>

text \<open>
  A component exists only as the result of the constructor call, of \<^verbatim>\<open>from_dict\<close>, or as
  what \<^verbatim>\<open>run\<close> leaves of one that existed.
\<close>

inductive reachable :: "sdk \<Rightarrow> component \<Rightarrow> bool" for s :: sdk where
  constructed: "new s w kw = (Inr c, w') \<Longrightarrow> reachable s c"
| deserialized: "from_dict s w d = (Inr c, w') \<Longrightarrow> reachable s c"
| ran: "reachable s c \<Longrightarrow> run s w c img = (r, c', w') \<Longrightarrow> reachable s c'"

fun is_init :: "effect \<Rightarrow> bool" where
  "is_init (Init p l) = True"
| "is_init _ = False"

fun is_from_pretrained :: "effect \<Rightarrow> bool" where
  "is_from_pretrained (FromPretrained m) = True"
| "is_from_pretrained _ = False"

text \<open>The trace after \<open>n\<close> calls of \<^verbatim>\<open>from_dict\<close> on the same data, one after the other.\<close>

fun from_dict_repeat :: "sdk \<Rightarrow> effect list \<Rightarrow> pydict \<Rightarrow> nat \<Rightarrow> effect list" where
  "from_dict_repeat s w d 0 = w"
| "from_dict_repeat s w d (Suc n) = from_dict_repeat s (snd (from_dict s w d)) d n"

subsection \<open>Test doubles and sample inputs\<close>

text \<open>A client that answers every image with the captions \<^verbatim>\<open>["a", "b"]\<close>.\<close>

definition stub_sdk :: sdk where
  "stub_sdk = \<lparr>vertexai_init = (\<lambda>w p l. None),
               from_pretrained = (\<lambda>w m. Inr (Handle 0)),
               get_captions = (\<lambda>w h i kw. Inr [''a'', ''b''])\<rparr>"

text \<open>A client whose captioning call raises.\<close>

definition raising_sdk :: sdk where
  "raising_sdk = \<lparr>vertexai_init = (\<lambda>w p l. None),
                  from_pretrained = (\<lambda>w m. Inr (Handle 0)),
                  get_captions = (\<lambda>w h i kw. Inl (SdkException ''quota exceeded''))\<rparr>"

text \<open>A loader that knows no model.\<close>

definition unknown_model_sdk :: sdk where
  "unknown_model_sdk = \<lparr>vertexai_init = (\<lambda>w p l. None),
                        from_pretrained = (\<lambda>w m. Inl (SdkException ''model not found'')),
                        get_captions = (\<lambda>w h i kw. Inr [])\<rparr>"

definition robot :: byte_stream where
  "robot = \<lparr>data = [255, 216, 255], meta = [], mime_type = Some ''image/jpeg''\<rparr>"

text \<open>The component of \<^verbatim>\<open>VertexAIImageCaptioner(number_of_results=3)\<close> under the stub.\<close>

definition three_results :: component where
  "three_results = \<lparr>model_name = PStr ''imagetext'', project_id = PNone, location = PNone,
                     kwargs = [(''number_of_results'', PInt 3)], model = Handle 0\<rparr>"

text \<open>The component of \<^verbatim>\<open>VertexAIImageCaptioner(image=1)\<close> under the stub.\<close>

definition image_option :: component where
  "image_option = \<lparr>model_name = PStr ''imagetext'', project_id = PNone, location = PNone,
                    kwargs = [(''image'', PInt 1)], model = Handle 0\<rparr>"

text \<open>The component of \<^verbatim>\<open>VertexAIImageCaptioner(obj=1)\<close> under the stub.\<close>

definition obj_option :: component where
  "obj_option = \<lparr>model_name = PStr ''imagetext'', project_id = PNone, location = PNone,
                  kwargs = [(''obj'', PInt 1)], model = Handle 0\<rparr>"

section \<open>Properties\<close>

subsection \<open>Keyword binding\<close>

lemma duplicate_keyword_None:
  "duplicate_keyword names kw = None \<longleftrightarrow> set names \<inter> fst ` set kw = {}"
  by (auto simp: duplicate_keyword_def find_None_iff)

lemma duplicate_keyword_Some:
  "duplicate_keyword names kw = Some k \<Longrightarrow> k \<in> set names \<and> k \<in> fst ` set kw"
  by (auto simp: duplicate_keyword_def find_Some_iff)

lemma filter_unreserved:
  "set init_parameters \<inter> fst ` set kw = {} \<Longrightarrow>
     filter (\<lambda>(k, v). k \<notin> set init_parameters) kw = kw"
  by (rule filter_True) force

lemma new_bind:
  assumes "set (''self'' # init_parameters) \<inter> fst ` set kw = {}"
  shows "new s w ((''model'', m) # (''project_id'', p) # (''location'', l) # kw) = init s w m p l kw"
proof -
  have "''self'' \<notin> fst ` set kw" and r: "set init_parameters \<inter> fst ` set kw = {}"
    using assms by auto
  then have "duplicate_keyword [''self'']
               ((''model'', m) # (''project_id'', p) # (''location'', l) # kw) = None"
    by (simp add: duplicate_keyword_None)
  moreover have "filter (\<lambda>(k, v). k \<notin> set init_parameters)
                   ((''model'', m) # (''project_id'', p) # (''location'', l) # kw) = kw"
    using filter_unreserved [OF r] by (simp add: init_parameters_def)
  ultimately show ?thesis
    by (simp add: new_def)
qed

lemma new_kwargs:
  assumes "new s w kw = (Inr c, w')"
  shows "kwargs c = filter (\<lambda>(k, v). k \<notin> set init_parameters) kw \<and> ''self'' \<notin> fst ` set kw"
proof -
  from assms have n: "duplicate_keyword [''self''] kw = None"
    by (auto simp: new_def split: option.splits)
  then have "''self'' \<notin> fst ` set kw"
    by (simp add: duplicate_keyword_None)
  moreover from assms n have "kwargs c = filter (\<lambda>(k, v). k \<notin> set init_parameters) kw"
    by (auto simp: new_def init_def Let_def split: option.splits sum.splits)
  ultimately show ?thesis by simp
qed

subsection \<open>Construction\<close>

lemma init_fst_cases:
  "fst (init s w m p l kw) = Inr c \<Longrightarrow>
     vertexai_init s w p l = None \<and>
     (\<exists>h. from_pretrained s (w @ [Init p l]) m = Inr h \<and>
        c = \<lparr>model_name = m, project_id = p, location = l, kwargs = kw, model = h\<rparr>)"
  by (auto simp: init_def Let_def split: option.splits sum.splits)

text \<open>
  C5. When authentication succeeds and the loader raises for the model name,
  \<^verbatim>\<open>__init__\<close> ends with that exception as a \<open>ModelLoadError\<close>: the result is the error,
  no component, and the trace shows the one attempt to load.
\<close>

theorem init_model_load_error:
  assumes "vertexai_init s w p l = None"
    and "from_pretrained s (w @ [Init p l]) m = Inl e"
  shows "init s w m p l kw = (Inl (ModelLoadError e), w @ [Init p l, FromPretrained m])"
  using assms by (simp add: init_def Let_def)

theorem init_model_load_error_witness:
  "vertexai_init unknown_model_sdk [] PNone PNone = None
   \<and> from_pretrained unknown_model_sdk [Init PNone PNone] (PStr ''no-such-model'')
       = Inl (SdkException ''model not found'')
   \<and> init unknown_model_sdk [] (PStr ''no-such-model'') PNone PNone [] =
       (Inl (ModelLoadError (SdkException ''model not found'')),
        [Init PNone PNone, FromPretrained (PStr ''no-such-model'')])
   \<and> new unknown_model_sdk [] [(''model'', PStr ''no-such-model'')] =
       (Inl (ModelLoadError (SdkException ''model not found'')),
        [Init PNone PNone, FromPretrained (PStr ''no-such-model'')])"
proof -
  have a: "vertexai_init unknown_model_sdk [] PNone PNone = None"
    by (simp add: unknown_model_sdk_def)
  have l: "from_pretrained unknown_model_sdk ([] @ [Init PNone PNone]) (PStr ''no-such-model'')
       = Inl (SdkException ''model not found'')"
    by (simp add: unknown_model_sdk_def)
  have i: "init unknown_model_sdk [] (PStr ''no-such-model'') PNone PNone [] =
       (Inl (ModelLoadError (SdkException ''model not found'')),
        [] @ [Init PNone PNone, FromPretrained (PStr ''no-such-model'')])"
    by (rule init_model_load_error [OF a l])
  have "new unknown_model_sdk [] [(''model'', PStr ''no-such-model'')] =
          init unknown_model_sdk [] (PStr ''no-such-model'') PNone PNone []"
    by (simp add: new_def duplicate_keyword_def init_parameters_def)
  with a l i show ?thesis
    by simp
qed

subsection \<open>Serialization\<close>

lemma to_dict_merged:
  assumes "set init_parameters \<inter> fst ` set (kwargs c) = {}"
  shows "to_dict c =
           default_to_dict type_name
             ((''model'', model_name c) # (''project_id'', project_id c) #
              (''location'', location c) # kwargs c)"
proof -
  from assms have "duplicate_keyword init_parameters (kwargs c) = None"
    by (simp only: duplicate_keyword_None)
  then show ?thesis
    by (simp add: to_dict_def)
qed

lemma default_to_dict_cases:
  "default_to_dict cls ps = Inl (TypeError ''obj'') \<and> ''obj'' \<in> fst ` set ps
   \<or> default_to_dict cls ps = Inr [(''type'', PStr cls), (''init_parameters'', PDict ps)]
       \<and> ''obj'' \<notin> fst ` set ps"
proof (cases "duplicate_keyword [''obj''] ps")
  case None
  then have "''obj'' \<notin> fst ` set ps"
    by (simp add: duplicate_keyword_None)
  with None show ?thesis
    by (simp add: default_to_dict_def)
next
  case (Some k)
  from duplicate_keyword_Some [OF Some] have "k = ''obj''" "''obj'' \<in> fst ` set ps"
    by auto
  with Some show ?thesis
    by (simp add: default_to_dict_def)
qed

lemma to_dict_valid:
  assumes "set (''obj'' # init_parameters) \<inter> fst ` set (kwargs c) = {}"
  shows "to_dict c = Inr [(''type'', PStr type_name), (''init_parameters'',
           PDict ((''model'', model_name c) # (''project_id'', project_id c) #
                  (''location'', location c) # kwargs c))]"
proof -
  from assms have res: "set init_parameters \<inter> fst ` set (kwargs c) = {}"
    and "''obj'' \<notin> fst ` set (kwargs c)"
    by auto
  then have "''obj'' \<notin> fst ` set ((''model'', model_name c) # (''project_id'', project_id c) #
                  (''location'', location c) # kwargs c)"
    by simp
  with default_to_dict_cases show ?thesis
    unfolding to_dict_merged [OF res] by blast
qed

lemma to_dict_Inr:
  assumes "to_dict c = Inr d"
  shows "set (''obj'' # init_parameters) \<inter> fst ` set (kwargs c) = {}"
proof -
  from assms have res: "set init_parameters \<inter> fst ` set (kwargs c) = {}"
    by (auto simp: to_dict_def duplicate_keyword_None [symmetric] split: option.splits)
  let ?ps = "(''model'', model_name c) # (''project_id'', project_id c) #
             (''location'', location c) # kwargs c"
  from assms have "default_to_dict type_name ?ps = Inr d"
    unfolding to_dict_merged [OF res] .
  with default_to_dict_cases [of type_name ?ps] have "''obj'' \<notin> fst ` set ?ps"
    by auto
  with res show ?thesis
    by simp
qed

lemma from_dict_serialized:
  "from_dict s w [(''type'', PStr type_name), (''init_parameters'', PDict ps)] = new s w ps"
  by (simp add: from_dict_def default_from_dict_def)

lemma from_dict_is_new:
  assumes "from_dict s w d = (Inr c, w')"
  shows "\<exists>kw. new s w kw = (Inr c, w')"
  using assms
  by (auto simp: from_dict_def default_from_dict_def split: option.splits if_splits pyval.splits)

text \<open>
  C1, as amended. A valid configuration is one whose extra options use none of the names
  that the constructor binds itself (\<^verbatim>\<open>self\<close>, \<^verbatim>\<open>model\<close>, \<^verbatim>\<open>project_id\<close>, \<^verbatim>\<open>location\<close>).
  For such a component whose options have no entry named \<^verbatim>\<open>obj\<close> either,
  \<^verbatim>\<open>to_dict\<close> succeeds; its output holds the type identifier and, under
  \<^verbatim>\<open>init_parameters\<close>, the model, the project id, the location and the extra options;
  \<^verbatim>\<open>from_dict\<close> of that output is construction with exactly these four values, so that,
  when authentication and loading succeed, it yields the same component around the freshly
  loaded handle.
\<close>

theorem from_dict_to_dict_round_trip:
  assumes valid: "duplicate_keyword (''self'' # ''obj'' # init_parameters) (kwargs c) = None"
  shows "\<exists>d. to_dict c = Inr d
           \<and> map_of d ''type'' = Some (PStr type_name)
           \<and> map_of d ''init_parameters'' =
               Some (PDict ((''model'', model_name c) # (''project_id'', project_id c) #
                            (''location'', location c) # kwargs c))
           \<and> from_dict s w d = init s w (model_name c) (project_id c) (location c) (kwargs c)
           \<and> (\<forall>h. vertexai_init s w (project_id c) (location c) = None \<longrightarrow>
                  from_pretrained s (w @ [Init (project_id c) (location c)]) (model_name c) = Inr h \<longrightarrow>
                  fst (from_dict s w d) = Inr (c\<lparr>model := h\<rparr>))"
proof -
  let ?ps = "(''model'', model_name c) # (''project_id'', project_id c) #
             (''location'', location c) # kwargs c"
  let ?d = "[(''type'', PStr type_name), (''init_parameters'', PDict ?ps)]"
  from valid have "set (''self'' # ''obj'' # init_parameters) \<inter> fst ` set (kwargs c) = {}"
    by (simp only: duplicate_keyword_None)
  then have all: "set (''self'' # init_parameters) \<inter> fst ` set (kwargs c) = {}"
    and res: "set (''obj'' # init_parameters) \<inter> fst ` set (kwargs c) = {}"
    by auto
  have t: "to_dict c = Inr ?d"
    by (rule to_dict_valid [OF res])
  have f: "from_dict s w ?d = init s w (model_name c) (project_id c) (location c) (kwargs c)"
    by (simp only: from_dict_serialized new_bind [OF all])
  have g: "fst (from_dict s w ?d) = Inr (c\<lparr>model := h\<rparr>)"
    if "vertexai_init s w (project_id c) (location c) = None"
      and "from_pretrained s (w @ [Init (project_id c) (location c)]) (model_name c) = Inr h" for h
    using that unfolding f by (simp add: init_def Let_def)
  from t f g show ?thesis
    by (intro exI [of _ ?d]) simp
qed

theorem from_dict_to_dict_round_trip_witness:
  "duplicate_keyword (''self'' # ''obj'' # init_parameters) (kwargs three_results) = None
   \<and> vertexai_init stub_sdk [] (project_id three_results) (location three_results) = None
   \<and> from_pretrained stub_sdk [Init (project_id three_results) (location three_results)]
        (model_name three_results) = Inr (Handle 0)
   \<and> to_dict three_results =
       Inr [(''type'', PStr type_name),
            (''init_parameters'',
             PDict [(''model'', PStr ''imagetext''), (''project_id'', PNone),
                    (''location'', PNone), (''number_of_results'', PInt 3)])]
   \<and> fst (from_dict stub_sdk []
            [(''type'', PStr type_name),
             (''init_parameters'',
              PDict [(''model'', PStr ''imagetext''), (''project_id'', PNone),
                     (''location'', PNone), (''number_of_results'', PInt 3)])])
       = Inr three_results"
proof -
  have v: "duplicate_keyword (''self'' # ''obj'' # init_parameters) (kwargs three_results) = None"
    by (simp add: duplicate_keyword_def init_parameters_def three_results_def)
  have a: "vertexai_init stub_sdk [] (project_id three_results) (location three_results) = None"
    by (simp add: stub_sdk_def)
  have l: "from_pretrained stub_sdk [Init (project_id three_results) (location three_results)]
             (model_name three_results) = Inr (Handle 0)"
    by (simp add: stub_sdk_def)
  have t: "to_dict three_results =
       Inr [(''type'', PStr type_name),
            (''init_parameters'',
             PDict [(''model'', PStr ''imagetext''), (''project_id'', PNone),
                    (''location'', PNone), (''number_of_results'', PInt 3)])]"
    by (simp add: to_dict_def duplicate_keyword_def init_parameters_def three_results_def
        default_to_dict_def)
  from from_dict_to_dict_round_trip [OF v, of stub_sdk "[]"] obtain d where
    d: "to_dict three_results = Inr d"
    and r: "\<forall>h. vertexai_init stub_sdk [] (project_id three_results) (location three_results) = None \<longrightarrow>
              from_pretrained stub_sdk ([] @ [Init (project_id three_results) (location three_results)])
                (model_name three_results) = Inr h \<longrightarrow>
              fst (from_dict stub_sdk [] d) = Inr (three_results\<lparr>model := h\<rparr>)"
    by blast
  from r a l have "fst (from_dict stub_sdk [] d) = Inr (three_results\<lparr>model := Handle 0\<rparr>)"
    by simp
  moreover have "three_results\<lparr>model := Handle 0\<rparr> = three_results"
    by (simp add: three_results_def)
  ultimately have "fst (from_dict stub_sdk [] d) = Inr three_results"
    by simp
  with d t v a l show ?thesis
    by simp
qed

text \<open>
  The claim as written fails for \<^verbatim>\<open>VertexAIImageCaptioner(obj=1)\<close>: the constructor
  accepts the option, none of the constructor's own names is used, and \<^verbatim>\<open>to_dict\<close> raises
  \<^verbatim>\<open>TypeError\<close>, so there is no serialized form to read back.
\<close>

theorem from_dict_to_dict_round_trip_counterexample:
  "new stub_sdk [] [(''obj'', PInt 1)] =
     (Inr obj_option, [Init PNone PNone, FromPretrained (PStr ''imagetext'')])
   \<and> duplicate_keyword (''self'' # init_parameters) (kwargs obj_option) = None
   \<and> to_dict obj_option = Inl (TypeError ''obj'')"
  by (simp add: new_def init_def to_dict_def default_to_dict_def duplicate_keyword_def
      init_parameters_def stub_sdk_def obj_option_def)

text \<open>
  C7. The required field of the serialized form is the type identifier. When the
  dictionary has no \<^verbatim>\<open>type\<close> entry, or the entry is anything other than this class's
  name, \<^verbatim>\<open>from_dict\<close> fails with \<open>DeserializationError\<close>, returns no component and calls
  nothing in the SDK.
\<close>

theorem from_dict_rejects_type:
  assumes "map_of d ''type'' \<noteq> Some (PStr type_name)"
  shows "from_dict s w d = (Inl DeserializationError, w)"
  using assms by (auto simp: from_dict_def default_from_dict_def split: option.splits)

theorem from_dict_rejects_type_witness:
  "map_of [(''init_parameters'', PDict [])] ''type'' \<noteq> Some (PStr type_name)
   \<and> from_dict stub_sdk [] [(''init_parameters'', PDict [])] = (Inl DeserializationError, [])
   \<and> map_of [(''type'', PStr ''builtins.dict''), (''init_parameters'', PDict [])] ''type''
       \<noteq> Some (PStr type_name)
   \<and> from_dict stub_sdk [] [(''type'', PStr ''builtins.dict''), (''init_parameters'', PDict [])]
       = (Inl DeserializationError, [])"
proof -
  have a: "map_of [(''init_parameters'', PDict [])] ''type'' \<noteq> Some (PStr type_name)"
    by simp
  have b: "map_of [(''type'', PStr ''builtins.dict''), (''init_parameters'', PDict [])] ''type''
       \<noteq> Some (PStr type_name)"
    by (simp add: type_name_def)
  from from_dict_rejects_type [OF a, of stub_sdk "[]"] from_dict_rejects_type [OF b, of stub_sdk "[]"]
    a b show ?thesis
    by simp
qed

lemma init_count_init:
  "length (filter is_init (snd (init s w m p l kw))) = Suc (length (filter is_init w))"
  by (simp add: init_def Let_def split: option.splits sum.splits)

lemma init_count_load:
  "vertexai_init s w p l = None \<Longrightarrow>
     length (filter is_from_pretrained (snd (init s w m p l kw))) =
       Suc (length (filter is_from_pretrained w))"
  by (simp add: init_def Let_def split: sum.splits)

lemma init_trace_auth: "\<exists>rest. snd (init s w m p l kw) = w @ Init p l # rest"
  by (simp add: init_def Let_def split: option.splits sum.splits)

lemma init_trace_load:
  "vertexai_init s w p l = None \<Longrightarrow> snd (init s w m p l kw) = w @ [Init p l, FromPretrained m]"
  by (simp add: init_def Let_def split: sum.splits)

lemma init_success:
  "vertexai_init s w p l = None \<Longrightarrow> from_pretrained s (w @ [Init p l]) m = Inr h \<Longrightarrow>
     fst (init s w m p l kw) =
       Inr \<lparr>model_name = m, project_id = p, location = l, kwargs = kw, model = h\<rparr>"
  by (simp add: init_def Let_def)

lemma from_dict_of_to_dict:
  assumes "to_dict c = Inr d" and "''self'' \<notin> fst ` set (kwargs c)"
  shows "from_dict s w d = init s w (model_name c) (project_id c) (location c) (kwargs c)"
proof -
  from to_dict_Inr [OF assms(1)]
  have res: "set (''obj'' # init_parameters) \<inter> fst ` set (kwargs c) = {}" .
  with assms(2) have all: "set (''self'' # init_parameters) \<inter> fst ` set (kwargs c) = {}"
    by simp
  from to_dict_valid [OF res] assms(1)
  have "d = [(''type'', PStr type_name), (''init_parameters'',
           PDict ((''model'', model_name c) # (''project_id'', project_id c) #
                  (''location'', location c) # kwargs c))]"
    by simp
  then show ?thesis
    by (simp only: from_dict_serialized new_bind [OF all])
qed

lemma from_dict_repeat_inits:
  assumes "\<And>w. \<exists>m p l kw. from_dict s w d = init s w m p l kw"
  shows "length (filter is_init (from_dict_repeat s w d n)) = length (filter is_init w) + n"
proof (induction n arbitrary: w)
  case 0
  show ?case by simp
next
  case (Suc n)
  from assms obtain m p l kw where "from_dict s w d = init s w m p l kw"
    by blast
  then have "length (filter is_init (snd (from_dict s w d))) = Suc (length (filter is_init w))"
    by (simp add: init_count_init)
  with Suc.IH [of "snd (from_dict s w d)"] show ?case
    by simp
qed

lemma from_dict_repeat_loads:
  assumes "\<And>w. from_dict s w d = init s w m p l kw"
    and "\<And>w. vertexai_init s w p l = None"
  shows "length (filter is_from_pretrained (from_dict_repeat s w d n)) =
           length (filter is_from_pretrained w) + n"
proof (induction n arbitrary: w)
  case 0
  show ?case by simp
next
  case (Suc n)
  have "length (filter is_from_pretrained (snd (from_dict s w d))) =
          Suc (length (filter is_from_pretrained w))"
    by (simp add: assms(1) init_count_load [OF assms(2)])
  with Suc.IH [of "snd (from_dict s w d)"] show ?case
    by simp
qed

text \<open>
  C6. For the output \<open>d\<close> of \<^verbatim>\<open>to_dict\<close>, \<^verbatim>\<open>from_dict\<close> is the whole of construction on the
  stored configuration: at any trace it calls \<^verbatim>\<open>vertexai.init\<close> again; when that succeeds
  it calls \<^verbatim>\<open>from_pretrained\<close> again, and the handle of the new component is the one that
  this call returns, whatever handle the serialized component had; and \<open>n\<close> calls in a row
  make \<open>n\<close> calls of \<^verbatim>\<open>vertexai.init\<close> (and \<open>n\<close> of \<^verbatim>\<open>from_pretrained\<close> when authentication
  keeps succeeding), so nothing is reused from one call to the next. The second premise
  holds of every component there is (\<open>reachable_no_self\<close> below): the constructor call
  rejects a keyword \<^verbatim>\<open>self\<close>.
\<close>

theorem from_dict_reruns_construction:
  assumes ser: "to_dict c = Inr d" and self: "''self'' \<notin> fst ` set (kwargs c)"
  shows "from_dict s w d = init s w (model_name c) (project_id c) (location c) (kwargs c)
       \<and> (\<exists>rest. snd (from_dict s w d) = w @ Init (project_id c) (location c) # rest)
       \<and> (vertexai_init s w (project_id c) (location c) = None \<longrightarrow>
            snd (from_dict s w d) =
              w @ [Init (project_id c) (location c), FromPretrained (model_name c)])
       \<and> (\<forall>h. vertexai_init s w (project_id c) (location c) = None \<longrightarrow>
              from_pretrained s (w @ [Init (project_id c) (location c)]) (model_name c) = Inr h \<longrightarrow>
              fst (from_dict s w d) = Inr (c\<lparr>model := h\<rparr>))
       \<and> length (filter is_init (from_dict_repeat s w d n)) = length (filter is_init w) + n
       \<and> ((\<forall>w'. vertexai_init s w' (project_id c) (location c) = None) \<longrightarrow>
            length (filter is_from_pretrained (from_dict_repeat s w d n)) =
              length (filter is_from_pretrained w) + n)"
proof -
  note eq = from_dict_of_to_dict [OF ser self]
  have a: "\<exists>rest. snd (from_dict s w d) = w @ Init (project_id c) (location c) # rest"
    unfolding eq by (rule init_trace_auth)
  have b: "snd (from_dict s w d) =
              w @ [Init (project_id c) (location c), FromPretrained (model_name c)]"
    if "vertexai_init s w (project_id c) (location c) = None"
    unfolding eq using that by (rule init_trace_load)
  have c: "fst (from_dict s w d) = Inr (c\<lparr>model := h\<rparr>)"
    if "vertexai_init s w (project_id c) (location c) = None"
      and "from_pretrained s (w @ [Init (project_id c) (location c)]) (model_name c) = Inr h" for h
    unfolding eq using that by (simp add: init_success)
  have d: "length (filter is_init (from_dict_repeat s w d n)) = length (filter is_init w) + n"
    by (rule from_dict_repeat_inits) (blast intro: eq)
  have e: "length (filter is_from_pretrained (from_dict_repeat s w d n)) =
              length (filter is_from_pretrained w) + n"
    if "\<forall>w'. vertexai_init s w' (project_id c) (location c) = None"
    using that by (intro from_dict_repeat_loads [OF eq]) simp
  from eq a b c d e show ?thesis
    by blast
qed

theorem from_dict_reruns_construction_witness:
  "to_dict (three_results\<lparr>model := Handle 7\<rparr>) =
     Inr [(''type'', PStr type_name),
          (''init_parameters'',
           PDict [(''model'', PStr ''imagetext''), (''project_id'', PNone),
                  (''location'', PNone), (''number_of_results'', PInt 3)])]
   \<and> ''self'' \<notin> fst ` set (kwargs (three_results\<lparr>model := Handle 7\<rparr>))
   \<and> (\<forall>w'. vertexai_init stub_sdk w' PNone PNone = None)
   \<and> from_pretrained stub_sdk [Init PNone PNone] (PStr ''imagetext'') = Inr (Handle 0)
   \<and> from_dict stub_sdk []
        [(''type'', PStr type_name),
         (''init_parameters'',
          PDict [(''model'', PStr ''imagetext''), (''project_id'', PNone),
                 (''location'', PNone), (''number_of_results'', PInt 3)])]
       = (Inr three_results, [Init PNone PNone, FromPretrained (PStr ''imagetext'')])
   \<and> length (filter is_init (from_dict_repeat stub_sdk []
        [(''type'', PStr type_name),
         (''init_parameters'',
          PDict [(''model'', PStr ''imagetext''), (''project_id'', PNone),
                 (''location'', PNone), (''number_of_results'', PInt 3)])] 2)) = 2
   \<and> length (filter is_from_pretrained (from_dict_repeat stub_sdk []
        [(''type'', PStr type_name),
         (''init_parameters'',
          PDict [(''model'', PStr ''imagetext''), (''project_id'', PNone),
                 (''location'', PNone), (''number_of_results'', PInt 3)])] 2)) = 2"
proof -
  let ?c = "three_results\<lparr>model := Handle 7\<rparr>"
  let ?d = "[(''type'', PStr type_name),
             (''init_parameters'',
              PDict [(''model'', PStr ''imagetext''), (''project_id'', PNone),
                     (''location'', PNone), (''number_of_results'', PInt 3)])]"
  have t: "to_dict ?c = Inr ?d"
    by (simp add: to_dict_def duplicate_keyword_def init_parameters_def three_results_def
        default_to_dict_def)
  have k: "''self'' \<notin> fst ` set (kwargs ?c)"
    by (simp add: three_results_def)
  have f: "model_name ?c = PStr ''imagetext''" "project_id ?c = PNone" "location ?c = PNone"
    by (simp_all add: three_results_def)
  have a: "\<forall>w'. vertexai_init stub_sdk w' PNone PNone = None"
    by (simp add: stub_sdk_def)
  have l: "from_pretrained stub_sdk [Init PNone PNone] (PStr ''imagetext'') = Inr (Handle 0)"
    by (simp add: stub_sdk_def)
  have r: "?c\<lparr>model := Handle 0\<rparr> = three_results"
    by (simp add: three_results_def)
  note th = from_dict_reruns_construction [OF t k, of stub_sdk "[]" 2, unfolded f]
  note tail = th [THEN conjunct2, THEN conjunct2]
  from tail [THEN conjunct1] a
  have 1: "snd (from_dict stub_sdk [] ?d) = [Init PNone PNone, FromPretrained (PStr ''imagetext'')]"
    by simp
  from tail [THEN conjunct2, THEN conjunct1] a l
  have 2: "fst (from_dict stub_sdk [] ?d) = Inr (?c\<lparr>model := Handle 0\<rparr>)"
    by simp
  from tail [THEN conjunct2, THEN conjunct2, THEN conjunct1]
  have 3: "length (filter is_init (from_dict_repeat stub_sdk [] ?d 2)) = 2"
    by simp
  from tail [THEN conjunct2, THEN conjunct2, THEN conjunct2] a
  have 4: "length (filter is_from_pretrained (from_dict_repeat stub_sdk [] ?d 2)) = 2"
    by simp
  from 1 2 have "from_dict stub_sdk [] ?d =
      (Inr three_results, [Init PNone PNone, FromPretrained (PStr ''imagetext'')])"
    unfolding r by (simp add: prod_eq_iff)
  with t k a l 3 4 show ?thesis
    by simp
qed

subsection \<open>Captioning\<close>

lemma run_component: "run s w c img = (r, c', w') \<Longrightarrow> c' = c"
  by (auto simp: run_def Let_def split: option.splits sum.splits)

lemma run_reached:
  assumes "''image'' \<notin> fst ` set (kwargs c)"
  shows "run s w c img =
     (case get_captions s w (model c) (Image (data img)) (kwargs c) of
        Inl e \<Rightarrow> Inl (GenerationError e)
      | Inr captions \<Rightarrow> Inr [(''captions'', captions)],
      c, w @ [GetCaptions (model c) (Image (data img)) (kwargs c)])"
proof -
  from assms have "duplicate_keyword [''image''] (kwargs c) = None"
    by (simp add: duplicate_keyword_None)
  then show ?thesis
    by (simp add: run_def Let_def split: sum.splits)
qed

lemma run_rejected:
  assumes "''image'' \<in> fst ` set (kwargs c)"
  shows "run s w c img = (Inl (TypeError ''image''), c, w)"
proof -
  from assms have "duplicate_keyword [''image''] (kwargs c) \<noteq> None"
    by (simp add: duplicate_keyword_None)
  then obtain k where k: "duplicate_keyword [''image''] (kwargs c) = Some k"
    by blast
  from duplicate_keyword_Some [OF k] have "k = ''image''"
    by simp
  with k show ?thesis
    by (simp add: run_def)
qed

text \<open>
  C2, as amended. For a component whose extra options have no entry named \<^verbatim>\<open>image\<close>:
  when the client's captioning call returns a list of captions, \<^verbatim>\<open>run\<close> returns the
  dictionary with the single key \<^verbatim>\<open>captions\<close> bound to that list, unchanged.
\<close>

theorem run_returns_captions:
  assumes "''image'' \<notin> fst ` set (kwargs c)"
    and "get_captions s w (model c) (Image (data img)) (kwargs c) = Inr captions"
  shows "fst (run s w c img) = Inr [(''captions'', captions)]"
  using assms by (simp add: run_reached)

theorem run_returns_captions_witness:
  "''image'' \<notin> fst ` set (kwargs three_results)
   \<and> get_captions stub_sdk [] (model three_results) (Image (data robot)) (kwargs three_results)
       = Inr [''a'', ''b'']
   \<and> fst (run stub_sdk [] three_results robot) = Inr [(''captions'', [''a'', ''b''])]"
proof -
  have k: "''image'' \<notin> fst ` set (kwargs three_results)"
    by (simp add: three_results_def)
  have g: "get_captions stub_sdk [] (model three_results) (Image (data robot)) (kwargs three_results)
       = Inr [''a'', ''b'']"
    by (simp add: stub_sdk_def)
  from run_returns_captions [OF k g] k g show ?thesis
    by simp
qed

text \<open>
  The claim as written fails for \<^verbatim>\<open>VertexAIImageCaptioner(image=1)\<close>: the stub would
  answer \<^verbatim>\<open>["a", "b"]\<close>, but the call repeats the keyword \<^verbatim>\<open>image\<close> and \<^verbatim>\<open>run\<close>
  raises \<^verbatim>\<open>TypeError\<close>.
\<close>

theorem run_returns_captions_counterexample:
  "new stub_sdk [] [(''image'', PInt 1)] =
     (Inr image_option, [Init PNone PNone, FromPretrained (PStr ''imagetext'')])
   \<and> get_captions stub_sdk [Init PNone PNone, FromPretrained (PStr ''imagetext'')]
        (model image_option) (Image (data robot)) (kwargs image_option) = Inr [''a'', ''b'']
   \<and> data robot \<noteq> []
   \<and> fst (run stub_sdk [Init PNone PNone, FromPretrained (PStr ''imagetext'')] image_option robot)
       = Inl (TypeError ''image'')
   \<and> fst (run stub_sdk [Init PNone PNone, FromPretrained (PStr ''imagetext'')] image_option robot)
       \<noteq> Inr [(''captions'', [''a'', ''b''])]"
  by (simp add: new_def init_def run_def duplicate_keyword_def init_parameters_def stub_sdk_def
      image_option_def robot_def)

text \<open>
  C3, as amended. For a component whose extra options have no entry named \<^verbatim>\<open>image\<close>:
  when the client's captioning call raises, \<^verbatim>\<open>run\<close> ends with that same exception as a
  \<open>GenerationError\<close>, leaves the component as it was, returns no result, and has entered
  the client exactly once.
\<close>

theorem run_propagates_failure:
  assumes "''image'' \<notin> fst ` set (kwargs c)"
    and "get_captions s w (model c) (Image (data img)) (kwargs c) = Inl e"
  shows "run s w c img =
           (Inl (GenerationError e), c, w @ [GetCaptions (model c) (Image (data img)) (kwargs c)])"
  using assms by (simp add: run_reached)

theorem run_propagates_failure_witness:
  "''image'' \<notin> fst ` set (kwargs three_results)
   \<and> get_captions raising_sdk [] (model three_results) (Image (data robot)) (kwargs three_results)
       = Inl (SdkException ''quota exceeded'')
   \<and> run raising_sdk [] three_results robot =
       (Inl (GenerationError (SdkException ''quota exceeded'')), three_results,
        [GetCaptions (Handle 0) (Image [255, 216, 255]) [(''number_of_results'', PInt 3)]])"
proof -
  have k: "''image'' \<notin> fst ` set (kwargs three_results)"
    by (simp add: three_results_def)
  have g: "get_captions raising_sdk [] (model three_results) (Image (data robot)) (kwargs three_results)
       = Inl (SdkException ''quota exceeded'')"
    by (simp add: raising_sdk_def)
  have "run raising_sdk [] three_results robot =
       (Inl (GenerationError (SdkException ''quota exceeded'')), three_results,
        [] @ [GetCaptions (model three_results) (Image (data robot)) (kwargs three_results)])"
    by (rule run_propagates_failure [OF k g])
  with k g show ?thesis
    by (simp add: three_results_def robot_def)
qed

text \<open>
  The claim as written fails for \<^verbatim>\<open>VertexAIImageCaptioner(image=1)\<close> over a client that
  raises: \<^verbatim>\<open>run\<close> ends with \<^verbatim>\<open>TypeError\<close>, not with the client's exception, and the
  client is never entered.
\<close>

theorem run_propagates_failure_counterexample:
  "new raising_sdk [] [(''image'', PInt 1)] =
     (Inr image_option, [Init PNone PNone, FromPretrained (PStr ''imagetext'')])
   \<and> get_captions raising_sdk [Init PNone PNone, FromPretrained (PStr ''imagetext'')]
        (model image_option) (Image (data robot)) (kwargs image_option)
       = Inl (SdkException ''quota exceeded'')
   \<and> run raising_sdk [Init PNone PNone, FromPretrained (PStr ''imagetext'')] image_option robot
       = (Inl (TypeError ''image''), image_option,
          [Init PNone PNone, FromPretrained (PStr ''imagetext'')])
   \<and> fst (run raising_sdk [Init PNone PNone, FromPretrained (PStr ''imagetext'')] image_option robot)
       \<noteq> Inl (GenerationError (SdkException ''quota exceeded''))"
  by (simp add: new_def init_def run_def duplicate_keyword_def init_parameters_def raising_sdk_def
      image_option_def robot_def)

text \<open>
  C4, as amended. A component constructed from keyword arguments without an entry named
  \<^verbatim>\<open>image\<close> stores every argument other than \<^verbatim>\<open>model\<close>, \<^verbatim>\<open>project_id\<close> and \<^verbatim>\<open>location\<close>
  as it was given, and every \<^verbatim>\<open>run\<close> enters the client once, with the wrapped payload and
  exactly those options.
\<close>

theorem run_forwards_options:
  assumes "new s w0 kw = (Inr c, w1)"
    and "''image'' \<notin> fst ` set kw"
  shows "kwargs c = filter (\<lambda>(k, v). k \<notin> set init_parameters) kw
       \<and> snd (snd (run s w c img)) = w @ [GetCaptions (model c) (Image (data img)) (kwargs c)]"
proof -
  from new_kwargs [OF assms(1)]
  have k: "kwargs c = filter (\<lambda>(k, v). k \<notin> set init_parameters) kw"
    by simp
  with assms(2) have "''image'' \<notin> fst ` set (kwargs c)"
    by auto
  then show ?thesis
    using k by (simp add: run_reached)
qed

theorem run_forwards_options_witness:
  "new stub_sdk [] [(''model'', PStr ''imagetext''), (''number_of_results'', PInt 3)] =
     (Inr three_results, [Init PNone PNone, FromPretrained (PStr ''imagetext'')])
   \<and> ''image'' \<notin> fst ` set [(''model'', PStr ''imagetext''), (''number_of_results'', PInt 3)]
   \<and> kwargs three_results = [(''number_of_results'', PInt 3)]
   \<and> snd (snd (run stub_sdk [Init PNone PNone, FromPretrained (PStr ''imagetext'')]
                 three_results robot)) =
       [Init PNone PNone, FromPretrained (PStr ''imagetext''),
        GetCaptions (Handle 0) (Image [255, 216, 255]) [(''number_of_results'', PInt 3)]]"
proof -
  have n: "new stub_sdk [] [(''model'', PStr ''imagetext''), (''number_of_results'', PInt 3)] =
     (Inr three_results, [Init PNone PNone, FromPretrained (PStr ''imagetext'')])"
    by (simp add: new_def init_def duplicate_keyword_def init_parameters_def stub_sdk_def
        three_results_def)
  have k: "''image'' \<notin> fst ` set [(''model'', PStr ''imagetext''), (''number_of_results'', PInt 3)]"
    by simp
  from run_forwards_options [OF n k,
      of "[Init PNone PNone, FromPretrained (PStr ''imagetext'')]" robot]
  have "snd (snd (run stub_sdk [Init PNone PNone, FromPretrained (PStr ''imagetext'')]
                 three_results robot)) =
       [Init PNone PNone, FromPretrained (PStr ''imagetext'')] @
       [GetCaptions (model three_results) (Image (data robot)) (kwargs three_results)]"
    by simp
  with n k show ?thesis
    by (simp add: three_results_def robot_def)
qed

text \<open>
  The claim as written fails for \<^verbatim>\<open>VertexAIImageCaptioner(image=1)\<close>: the option is
  stored, but \<^verbatim>\<open>run\<close> adds nothing to the trace, so the client never sees it.
\<close>

theorem run_forwards_options_counterexample:
  "new stub_sdk [] [(''image'', PInt 1)] =
     (Inr image_option, [Init PNone PNone, FromPretrained (PStr ''imagetext'')])
   \<and> kwargs image_option = [(''image'', PInt 1)]
   \<and> snd (snd (run stub_sdk [Init PNone PNone, FromPretrained (PStr ''imagetext'')]
                 image_option robot)) = [Init PNone PNone, FromPretrained (PStr ''imagetext'')]"
  by (simp add: new_def init_def run_def duplicate_keyword_def init_parameters_def stub_sdk_def
      image_option_def robot_def)

text \<open>
  C8. \<^verbatim>\<open>run\<close> returns the component it was given, with every field as before, and the
  only effect it adds to the trace is its one call of the client (none when the call is
  rejected): nothing is logged and nothing is kept for a later call.
\<close>

theorem run_frame:
  "fst (snd (run s w c img)) = c
   \<and> snd (snd (run s w c img)) =
       w @ (if ''image'' \<in> fst ` set (kwargs c) then []
            else [GetCaptions (model c) (Image (data img)) (kwargs c)])"
  by (cases "''image'' \<in> fst ` set (kwargs c)") (simp_all add: run_reached run_rejected)

theorem run_frame_witness:
  "fst (snd (run stub_sdk [] three_results robot)) = three_results
   \<and> snd (snd (run stub_sdk [] three_results robot)) =
       [GetCaptions (Handle 0) (Image [255, 216, 255]) [(''number_of_results'', PInt 3)]]"
  using run_frame [of stub_sdk "[]" three_results robot]
  by (simp add: three_results_def robot_def)

text \<open>
  C9. Two byte streams with the same \<^verbatim>\<open>data\<close> give the same result, the same component
  and the same trace, whatever their \<^verbatim>\<open>meta\<close> and \<^verbatim>\<open>mime_type\<close>.
\<close>

theorem run_reads_data_only:
  assumes "data i1 = data i2"
  shows "run s w c i1 = run s w c i2"
  using assms by (simp add: run_def split: option.splits)

theorem run_reads_data_only_witness:
  "data robot = data \<lparr>data = [255, 216, 255], meta = [(''source'', PStr ''upload'')], mime_type = None\<rparr>
   \<and> run stub_sdk [] three_results robot =
       run stub_sdk [] three_results
         \<lparr>data = [255, 216, 255], meta = [(''source'', PStr ''upload'')], mime_type = None\<rparr>"
proof -
  have d: "data robot =
      data \<lparr>data = [255, 216, 255], meta = [(''source'', PStr ''upload'')], mime_type = None\<rparr>"
    by (simp add: robot_def)
  from run_reads_data_only [OF d, of stub_sdk "[]" three_results] d show ?thesis
    by simp
qed

subsection \<open>The invariant of the extra options\<close>

lemma new_unreserved:
  assumes "new s w kw = (Inr c, w')"
  shows "set init_parameters \<inter> fst ` set (kwargs c) = {}"
proof -
  from new_kwargs [OF assms]
  have "kwargs c = filter (\<lambda>(k, v). k \<notin> set init_parameters) kw"
    by simp
  then show ?thesis
    by auto
qed

lemma reachable_unreserved:
  assumes "reachable s c"
  shows "set init_parameters \<inter> fst ` set (kwargs c) = {}"
  using assms
proof (induction rule: reachable.induct)
  case (constructed w kw c w')
  then show ?case
    by (rule new_unreserved)
next
  case (deserialized w d c w')
  then obtain kw where "new s w kw = (Inr c, w')"
    using from_dict_is_new by blast
  then show ?case
    by (rule new_unreserved)
next
  case (ran c w img r c' w')
  from run_component [OF ran.hyps(2)] ran.IH show ?case
    by simp
qed

lemma reachable_no_self:
  assumes "reachable s c"
  shows "''self'' \<notin> fst ` set (kwargs c)"
  using assms
proof (induction rule: reachable.induct)
  case (constructed w kw c w')
  from new_kwargs [OF constructed] show ?case
    by auto
next
  case (deserialized w d c w')
  then obtain kw where "new s w kw = (Inr c, w')"
    using from_dict_is_new by blast
  from new_kwargs [OF this] show ?case
    by auto
next
  case (ran c w img r c' w')
  from run_component [OF ran.hyps(2)] ran.IH show ?case
    by simp
qed

text \<open>
  C10. A component that was constructed, deserialized, or left by \<^verbatim>\<open>run\<close> has none of
  \<^verbatim>\<open>model\<close>, \<^verbatim>\<open>project_id\<close>, \<^verbatim>\<open>location\<close> among the keys of its extra options. So the
  merge of the options with the three named fields in \<^verbatim>\<open>to_dict\<close> finds no repeated
  keyword, and \<^verbatim>\<open>to_dict\<close> never ends with the \<^verbatim>\<open>TypeError\<close> of one of these names.
\<close>

theorem extra_options_invariant:
  assumes "reachable s c"
  shows "''model'' \<notin> fst ` set (kwargs c)
       \<and> ''project_id'' \<notin> fst ` set (kwargs c)
       \<and> ''location'' \<notin> fst ` set (kwargs c)
       \<and> duplicate_keyword init_parameters (kwargs c) = None
       \<and> to_dict c \<noteq> Inl (TypeError ''model'')
       \<and> to_dict c \<noteq> Inl (TypeError ''project_id'')
       \<and> to_dict c \<noteq> Inl (TypeError ''location'')"
proof -
  note r = reachable_unreserved [OF assms]
  from r have k: "''model'' \<notin> fst ` set (kwargs c)" "''project_id'' \<notin> fst ` set (kwargs c)"
      "''location'' \<notin> fst ` set (kwargs c)"
    by (auto simp: init_parameters_def)
  from r have d: "duplicate_keyword init_parameters (kwargs c) = None"
    by (simp only: duplicate_keyword_None)
  let ?ps = "(''model'', model_name c) # (''project_id'', project_id c) #
             (''location'', location c) # kwargs c"
  from default_to_dict_cases [of type_name ?ps]
  have "to_dict c \<noteq> Inl (TypeError ''model'')" "to_dict c \<noteq> Inl (TypeError ''project_id'')"
      "to_dict c \<noteq> Inl (TypeError ''location'')"
    unfolding to_dict_merged [OF r] by auto
  with k d show ?thesis
    by simp
qed

theorem extra_options_invariant_witness:
  "reachable stub_sdk three_results
   \<and> ''model'' \<notin> fst ` set (kwargs three_results)
   \<and> ''project_id'' \<notin> fst ` set (kwargs three_results)
   \<and> ''location'' \<notin> fst ` set (kwargs three_results)
   \<and> duplicate_keyword init_parameters (kwargs three_results) = None
   \<and> to_dict three_results \<noteq> Inl (TypeError ''model'')
   \<and> to_dict three_results \<noteq> Inl (TypeError ''project_id'')
   \<and> to_dict three_results \<noteq> Inl (TypeError ''location'')"
proof -
  have "new stub_sdk [] [(''model'', PStr ''imagetext''), (''number_of_results'', PInt 3)] =
     (Inr three_results, [Init PNone PNone, FromPretrained (PStr ''imagetext'')])"
    by (simp add: new_def init_def duplicate_keyword_def init_parameters_def stub_sdk_def
        three_results_def)
  then have r: "reachable stub_sdk three_results"
    by (rule reachable.constructed)
  from extra_options_invariant [OF r] r show ?thesis
    by simp
qed

end
